theory Spec2Isabelle
  imports Complex_Main "HOL-Library.Option_ord" "HOL-Library.Product_Lexorder"
begin

section \<open>The appointment store (backend/sql/schema.sql)\<close>

text \<open>
  Rows of the tables \<^verbatim>\<open>appointments\<close>, \<^verbatim>\<open>properties\<close> and \<^verbatim>\<open>users\<close>, with the columns the
  appointment routes read or write. A nullable column is an \<open>option\<close>; \<open>None\<close> is SQL NULL.
  Timestamps are seconds, dates are day numbers, times are seconds of the day: the store
  compares them for equality and order only. An INT column is an unbounded integer, the
  score is kept as it is returned (the column is DECIMAL(3, 2)), and emails are the
  normalised strings the validator passes on. The column \<^verbatim>\<open>updated_at\<close> is left out.
\<close>

type_synonym timestamp = int
type_synonym sql_date = int
type_synonym sql_time = nat

datatype status = Pending | Assigned | Scheduled | Completed | Cancelled

text \<open>The column \<^verbatim>\<open>outcome ENUM('interested', 'offer_made', 'not_interested', 'no_show') NULL\<close>.\<close>

datatype outcome = Interested | OfferMade | NotInterested | NoShow

datatype role = Agent | Admin

datatype property_status = Available | Reserved | Sold

record appointment =
  appt_id :: nat
  property_id :: nat
  customer_name :: string
  customer_email :: string
  customer_phone :: string
  customer_intent :: string
  customer_message :: "string option"
  priority_number :: "int option"
  assigned_agent_id :: "nat option"
  assigned_at :: "timestamp option"
  scheduled_date :: "sql_date option"
  scheduled_time :: "sql_time option"
  status :: status
  outcome :: "outcome option"
  outcome_notes :: "string option"
  agent_notes :: "string option"
  admin_notes :: "string option"
  completed_at :: "timestamp option"
  recaptcha_score :: "rat option"
  ip_address :: "string option"
  created_at :: timestamp

record property =
  prop_id :: nat
  prop_title :: string
  prop_status :: property_status

record user =
  user_id :: nat
  user_email :: string
  first_name :: string
  user_role :: role
  is_active :: bool

text \<open>
  The database: the three tables and the AUTO_INCREMENT counter of \<^verbatim>\<open>appointments.id\<close>.
\<close>

record db =
  appointments :: "appointment list"
  properties :: "property list"
  users :: "user list"
  auto_increment :: nat

text \<open>
  The errors a statement of the routes can raise: a duplicate key, a string that is no
  label of an ENUM column (strict SQL mode), a negative LIMIT or OFFSET, and a trigger
  that updates the table of the statement that invoked it (error 1442).
\<close>

datatype db_error =
    ER_DUP_ENTRY
  | WARN_DATA_TRUNCATED
  | ER_PARSE_ERROR
  | ER_CANT_UPDATE_USED_TABLE_IN_SF_OR_TRG

subsection \<open>SQL helpers\<close>

text \<open>\<^verbatim>\<open>COALESCE(x, d)\<close> and \<^verbatim>\<open>MAX(col)\<close> over the non-NULL values (NULL when there is none).\<close>

definition coalesce :: "'a option \<Rightarrow> 'a \<Rightarrow> 'a" where
  "coalesce x d = (case x of None \<Rightarrow> d | Some v \<Rightarrow> v)"

fun sql_max :: "int list \<Rightarrow> int option" where
  "sql_max [] = None"
| "sql_max (x # xs) = Some (fold max xs x)"

fun non_null :: "'a option list \<Rightarrow> 'a list" where
  "non_null [] = []"
| "non_null (None # xs) = non_null xs"
| "non_null (Some v # xs) = v # non_null xs"

subsection \<open>Trigger \<^verbatim>\<open>before_appointment_insert\<close>\<close>

text \<open>
  \<^verbatim>\<open>SELECT COALESCE(MAX(priority_number), 0) + 1 INTO max_priority
   FROM appointments WHERE property_id = NEW.property_id;
   SET NEW.priority_number = max_priority;\<close>
  The SELECT has no condition on \<^verbatim>\<open>status\<close>: cancelled rows are counted.
\<close>

definition max_priority :: "appointment list \<Rightarrow> nat \<Rightarrow> int" where
  "max_priority rows pid =
     coalesce (sql_max (non_null (map priority_number
        (filter (\<lambda>a. property_id a = pid) rows)))) 0 + 1"

definition before_appointment_insert :: "appointment list \<Rightarrow> appointment \<Rightarrow> appointment" where
  "before_appointment_insert rows new =
     new\<lparr>priority_number := Some (max_priority rows (property_id new))\<rparr>"

subsection \<open>Trigger \<^verbatim>\<open>after_appointment_cancel\<close>\<close>

text \<open>
  \<^verbatim>\<open>CREATE TRIGGER after_appointment_cancel AFTER UPDATE ON appointments FOR EACH ROW
   IF OLD.status != 'cancelled' AND NEW.status = 'cancelled' THEN
     UPDATE appointments SET priority_number = priority_number - 1
     WHERE property_id = NEW.property_id AND priority_number > NEW.priority_number
       AND status != 'cancelled';\<close>
  The trigger is on \<^verbatim>\<open>appointments\<close> and its body updates \<^verbatim>\<open>appointments\<close>. MySQL does not
  let a trigger modify the table of the statement that invoked it: when the branch is
  entered, the inner UPDATE raises error 1442, whether or not a row matches, and the
  invoking statement fails. When the branch is not entered the trigger does nothing.
\<close>

definition after_appointment_cancel ::
  "appointment \<Rightarrow> appointment \<Rightarrow> appointment list \<Rightarrow> db_error + appointment list" where
  "after_appointment_cancel old new rows =
     (if status old \<noteq> Cancelled \<and> status new = Cancelled
      then Inl ER_CANT_UPDATE_USED_TABLE_IN_SF_OR_TRG else Inr rows)"

subsection \<open>INSERT and UPDATE on \<^verbatim>\<open>appointments\<close>\<close>

text \<open>
  \<^verbatim>\<open>UNIQUE KEY unique_property_schedule (property_id, scheduled_date, scheduled_time)\<close>:
  the key covers every row, whatever its status; a key with a NULL part never collides.
\<close>

definition same_slot :: "appointment \<Rightarrow> appointment \<Rightarrow> bool" where
  "same_slot a b \<longleftrightarrow>
     property_id a = property_id b
     \<and> scheduled_date a \<noteq> None \<and> scheduled_date a = scheduled_date b
     \<and> scheduled_time a \<noteq> None \<and> scheduled_time a = scheduled_time b"

definition dup_entry :: "appointment list \<Rightarrow> appointment \<Rightarrow> bool" where
  "dup_entry rows new \<longleftrightarrow>
     list_ex (\<lambda>b. appt_id b \<noteq> appt_id new \<and> same_slot new b) rows"

definition slot_key :: "appointment \<Rightarrow> nat \<times> sql_date option \<times> sql_time option" where
  "slot_key a = (property_id a, scheduled_date a, scheduled_time a)"

text \<open>
  \<^verbatim>\<open>INSERT INTO appointments (...) VALUES (...)\<close>: the row gets the next id, the BEFORE
  INSERT trigger sets its priority number, the row is appended. The routes insert with
  NULL schedule columns, so the unique key cannot fire on an insert.
\<close>

definition insert_appointment :: "db \<Rightarrow> appointment \<Rightarrow> db \<times> nat" where
  "insert_appointment d new =
     (let row = before_appointment_insert (appointments d) (new\<lparr>appt_id := auto_increment d\<rparr>)
      in (d\<lparr>appointments := appointments d @ [row],
             auto_increment := auto_increment d + 1\<rparr>, auto_increment d))"

text \<open>
  \<^verbatim>\<open>UPDATE appointments SET ... WHERE id = ?\<close>: \<open>id\<close> is the primary key, so at most one
  row is updated. The unique key is checked when the update changes the key of the row;
  after the row update the AFTER UPDATE trigger runs for the row. An error of either
  fails the statement and leaves the table as it was.
\<close>

definition update_appointment ::
  "db \<Rightarrow> nat \<Rightarrow> (appointment \<Rightarrow> appointment) \<Rightarrow> db_error + db" where
  "update_appointment d i f =
     (case find (\<lambda>a. appt_id a = i) (appointments d) of
        None \<Rightarrow> Inr d
      | Some old \<Rightarrow>
          (let new = f old;
               rows = map (\<lambda>a. if appt_id a = i then new else a) (appointments d)
           in if slot_key new \<noteq> slot_key old \<and> dup_entry (appointments d) new
              then Inl ER_DUP_ENTRY
              else (case after_appointment_cancel old new rows of
                      Inl e \<Rightarrow> Inl e
                    | Inr rows' \<Rightarrow> Inr (d\<lparr>appointments := rows'\<rparr>))))"

section \<open>The appointment routes (backend/routes/appointments.js)\<close>

text \<open>
  The responses of the routes, named after what they say:
  \<^item> \<open>Created i\<close>: 201 with \<^verbatim>\<open>appointmentId\<close> \<open>i\<close>; \<open>Success\<close>: 200;
  \<^item> \<open>ValidationFailed\<close>: 400 \<^verbatim>\<open>Validation failed\<close>;
  \<^item> \<open>RecaptchaFailed\<close>: 400 \<^verbatim>\<open>reCAPTCHA verification failed\<close>;
  \<^item> \<open>SuspiciousActivity\<close>: 400 \<^verbatim>\<open>Request blocked due to suspicious activity\<close>;
  \<^item> \<open>PropertyNotFound\<close>: 404 \<^verbatim>\<open>Property not found\<close>;
  \<^item> \<open>PropertyUnavailable\<close>: 400 \<^verbatim>\<open>Property is no longer available for viewing\<close>;
  \<^item> \<open>DuplicateRequest\<close>: 400 \<^verbatim>\<open>You have already submitted a request for this property.\<close>;
  \<^item> \<open>AppointmentNotFound\<close>: 404 \<^verbatim>\<open>Appointment not found\<close>;
  \<^item> \<open>AgentInactive\<close>: 400 \<^verbatim>\<open>Agent not found or inactive\<close>;
  \<^item> \<open>NotOwned\<close>: 404 \<^verbatim>\<open>Appointment not found or not assigned to you\<close>;
  \<^item> \<open>SlotConflict\<close>: 409 \<^verbatim>\<open>This time slot is already booked for this property.\<close>;
  \<^item> \<open>Forbidden\<close>: 403 of the role middleware;
  \<^item> \<open>InternalFailure\<close>: 500, the \<^verbatim>\<open>catch\<close> block of a route.
  No route has a response for an illegal status transition.
  Notification emails change no state of the store (\<^verbatim>\<open>sendNotificationEmail\<close> catches its
  own errors) and are left out.
\<close>

datatype response =
    Created nat
  | Success
  | ValidationFailed
  | RecaptchaFailed
  | SuspiciousActivity
  | PropertyNotFound
  | PropertyUnavailable
  | DuplicateRequest
  | AppointmentNotFound
  | AgentInactive
  | NotOwned
  | SlotConflict
  | Forbidden
  | InternalFailure

text \<open>The authenticated user of a request (\<^verbatim>\<open>req.user\<close>, from the verified token).\<close>

record actor =
  actor_id :: nat
  actor_role :: role

text \<open>Middleware \<^verbatim>\<open>isAdmin\<close> and \<^verbatim>\<open>isAgentOrAdmin\<close> (backend/middleware/auth.js).\<close>

definition isAdmin :: "actor \<Rightarrow> bool" where
  "isAdmin u \<longleftrightarrow> actor_role u = Admin"

definition isAgentOrAdmin :: "actor \<Rightarrow> bool" where
  "isAgentOrAdmin u \<longleftrightarrow> actor_role u \<in> set [Agent, Admin]"

text \<open>JavaScript \<^verbatim>\<open>x || d\<close> on an optional string, with \<open>null\<close> or a string as default.\<close>

fun or_null :: "string option \<Rightarrow> string option" where
  "or_null None = None"
| "or_null (Some s) = (if s = [] then None else Some s)"

definition or_default :: "string option \<Rightarrow> string \<Rightarrow> string" where
  "or_default x d = coalesce (or_null x) d"

subsection \<open>\<^verbatim>\<open>verifyRecaptcha\<close> and \<^verbatim>\<open>POST /api/appointments\<close>\<close>

text \<open>
  The verification service is a parameter: \<open>siteverify token\<close> is the parsed JSON it
  answers (\<^verbatim>\<open>await response.json()\<close>), or \<open>None\<close> when the \<^verbatim>\<open>fetch\<close> throws. The \<^verbatim>\<open>score\<close> of
  a reply is a JavaScript value: absent (\<^verbatim>\<open>undefined\<close>), \<^verbatim>\<open>null\<close>, or a number, which is a
  double and is given by its exact value.
\<close>

datatype js_score = Undefined | Null | Number rat

record recaptcha_result =
  success :: bool
  score :: js_score

record recaptcha_env =
  secret_key_configured :: bool
  siteverify :: "string \<Rightarrow> recaptcha_result option"

definition verifyRecaptcha :: "recaptcha_env \<Rightarrow> string \<Rightarrow> recaptcha_result" where
  "verifyRecaptcha env token =
     (if \<not> secret_key_configured env then \<lparr>success = True, score = Number 1\<rparr>
      else (case siteverify env token of
              None \<Rightarrow> \<lparr>success = False, score = Undefined\<rparr>
            | Some r \<Rightarrow> r))"

text \<open>
  \<^verbatim>\<open>recaptchaScore < 0.3\<close>. The literal \<^verbatim>\<open>0.3\<close> is the double nearest to 0.3, which is
  5404319552844595 / 2^54 and lies below 0.3. The comparison converts its left side to a
  number: \<^verbatim>\<open>undefined\<close> becomes NaN, and a comparison with NaN is false; \<^verbatim>\<open>null\<close> becomes 0;
  two doubles compare as their values do.
\<close>

definition double_0_3 :: rat where
  "double_0_3 = 5404319552844595 / 18014398509481984"

fun score_below_0_3 :: "js_score \<Rightarrow> bool" where
  "score_below_0_3 Undefined = False"
| "score_below_0_3 Null = (0 < double_0_3)"
| "score_below_0_3 (Number x) = (x < double_0_3)"

text \<open>The value bound to the column \<^verbatim>\<open>recaptcha_score\<close>: \<^verbatim>\<open>undefined\<close> and \<^verbatim>\<open>null\<close> are NULL.\<close>

fun score_column :: "js_score \<Rightarrow> rat option" where
  "score_column (Number x) = Some x"
| "score_column _ = None"

text \<open>
  The block \<^verbatim>\<open>let recaptchaScore = null; if (recaptchaToken) { ... }\<close>: it ends the request
  (\<open>Inl\<close>) or yields the score to store (\<open>Inr\<close>). An empty token is falsy.
\<close>

definition recaptcha_gate :: "recaptcha_env \<Rightarrow> string option \<Rightarrow> response + rat option" where
  "recaptcha_gate env recaptchaToken =
     (case or_null recaptchaToken of
        None \<Rightarrow> Inr None
      | Some token \<Rightarrow>
          (let recaptchaResult = verifyRecaptcha env token
           in if \<not> success recaptchaResult then Inl RecaptchaFailed
              else if score_below_0_3 (score recaptchaResult) then Inl SuspiciousActivity
              else Inr (score_column (score recaptchaResult))))"

text \<open>
  The request body after the validator chain; \<open>errors_isEmpty\<close> is the result of
  \<^verbatim>\<open>validationResult(req).isEmpty()\<close> (express-validator is a library).
\<close>

record create_request =
  errors_isEmpty :: bool
  propertyId :: nat
  customerName :: string
  customerEmail :: string
  customerPhone :: string
  customerIntent :: string
  customerMessage :: "string option"
  recaptchaToken :: "string option"

text \<open>
  \<^verbatim>\<open>SELECT id FROM appointments WHERE property_id = ? AND customer_email = ?
   AND created_at > DATE_SUB(NOW(), INTERVAL 24 HOUR)\<close>: no condition on \<^verbatim>\<open>status\<close>.
\<close>

definition duplicates :: "db \<Rightarrow> nat \<Rightarrow> string \<Rightarrow> timestamp \<Rightarrow> appointment list" where
  "duplicates d pid email now =
     filter (\<lambda>a. property_id a = pid \<and> customer_email a = email
                  \<and> created_at a > now - 24 * 3600) (appointments d)"

text \<open>The row of the INSERT: the listed columns, every other column at its default.\<close>

definition new_appointment ::
  "create_request \<Rightarrow> rat option \<Rightarrow> string \<Rightarrow> timestamp \<Rightarrow> appointment" where
  "new_appointment req recaptchaScore ipAddress now =
     \<lparr>appt_id = 0,
      property_id = propertyId req,
      customer_name = customerName req,
      customer_email = customerEmail req,
      customer_phone = customerPhone req,
      customer_intent = (if customerIntent req = [] then ''inquire'' else customerIntent req),
      customer_message = or_null (customerMessage req),
      priority_number = None,
      assigned_agent_id = None,
      assigned_at = None,
      scheduled_date = None,
      scheduled_time = None,
      status = Pending,
      outcome = None,
      outcome_notes = None,
      agent_notes = None,
      admin_notes = None,
      completed_at = None,
      recaptcha_score = recaptchaScore,
      ip_address = Some ipAddress,
      created_at = now\<rparr>"

definition createAppointment ::
  "recaptcha_env \<Rightarrow> db \<Rightarrow> create_request \<Rightarrow> string \<Rightarrow> timestamp \<Rightarrow> response \<times> db" where
  "createAppointment env d req ipAddress now =
     (if \<not> errors_isEmpty req then (ValidationFailed, d)
      else (case recaptcha_gate env (recaptchaToken req) of
              Inl r \<Rightarrow> (r, d)
            | Inr recaptchaScore \<Rightarrow>
                (case filter (\<lambda>p. prop_id p = propertyId req) (properties d) of
                   [] \<Rightarrow> (PropertyNotFound, d)
                 | p # _ \<Rightarrow>
                     if prop_status p \<noteq> Available then (PropertyUnavailable, d)
                     else if duplicates d (propertyId req) (customerEmail req) now \<noteq> []
                     then (DuplicateRequest, d)
                     else (let (d', insertId) =
                                 insert_appointment d
                                   (new_appointment req recaptchaScore ipAddress now)
                           in (Created insertId, d')))))"

subsection \<open>\<^verbatim>\<open>GET /api/appointments\<close>\<close>

text \<open>
  \<^verbatim>\<open>ORDER BY CASE a.status WHEN 'pending' THEN 1 WHEN 'assigned' THEN 2
   WHEN 'scheduled' THEN 3 ELSE 4 END, a.priority_number ASC, a.created_at DESC
   LIMIT ? OFFSET ?\<close>.
  The sort key is the triple in lexicographic order; NULL sorts first in ascending
  order, as \<open>None\<close> does; descending \<^verbatim>\<open>created_at\<close> is ascending \<open>- created_at\<close>. The JOIN
  keeps the rows whose property exists. A negative LIMIT or OFFSET fails the query. The
  status filter compares the label as it is written.
\<close>

fun status_label :: "status \<Rightarrow> string" where
  "status_label Pending = ''pending''"
| "status_label Assigned = ''assigned''"
| "status_label Scheduled = ''scheduled''"
| "status_label Completed = ''completed''"
| "status_label Cancelled = ''cancelled''"

fun status_rank :: "status \<Rightarrow> nat" where
  "status_rank Pending = 1"
| "status_rank Assigned = 2"
| "status_rank Scheduled = 3"
| "status_rank _ = 4"

definition admin_order :: "appointment \<Rightarrow> nat \<times> int option \<times> int" where
  "admin_order a = (status_rank (status a), priority_number a, - created_at a)"

definition joined :: "db \<Rightarrow> appointment \<Rightarrow> bool" where
  "joined d a \<longleftrightarrow> list_ex (\<lambda>p. prop_id p = property_id a) (properties d)"

definition where_status :: "string option \<Rightarrow> appointment \<Rightarrow> bool" where
  "where_status status_q a \<longleftrightarrow>
     (case or_null status_q of None \<Rightarrow> True | Some s \<Rightarrow> status_label (status a) = s)"

definition listAppointments ::
  "db \<Rightarrow> actor \<Rightarrow> string option \<Rightarrow> int \<Rightarrow> int \<Rightarrow> response + appointment list" where
  "listAppointments d u status_q page limit =
     (if \<not> isAdmin u then Inl Forbidden
      else (let offset = (page - 1) * limit;
                rows = sort_key admin_order
                         (filter (\<lambda>a. joined d a \<and> where_status status_q a) (appointments d))
            in if limit < 0 \<or> offset < 0 then Inl InternalFailure
               else Inr (take (nat limit) (drop (nat offset) rows))))"

subsection \<open>\<^verbatim>\<open>PUT /api/appointments/:id/assign\<close>\<close>

text \<open>
  The validator is \<^verbatim>\<open>body('agentId').isInt({ min: 1 })\<close>. The handler looks the appointment
  up (joined with its property), then the agent
  (\<^verbatim>\<open>WHERE id = ? AND role = 'agent' AND is_active = TRUE\<close>), then updates the row. It does
  not read the status of the appointment.
\<close>

definition select_joined :: "db \<Rightarrow> nat \<Rightarrow> appointment list" where
  "select_joined d i = filter (\<lambda>a. appt_id a = i \<and> joined d a) (appointments d)"

definition select_agents :: "db \<Rightarrow> int \<Rightarrow> user list" where
  "select_agents d agentId =
     filter (\<lambda>u. int (user_id u) = agentId \<and> user_role u = Agent \<and> is_active u) (users d)"

definition assignAgent :: "db \<Rightarrow> actor \<Rightarrow> nat \<Rightarrow> int \<Rightarrow> timestamp \<Rightarrow> response \<times> db" where
  "assignAgent d u i agentId now =
     (if \<not> isAdmin u then (Forbidden, d)
      else if agentId < 1 then (ValidationFailed, d)
      else if select_joined d i = [] then (AppointmentNotFound, d)
      else if select_agents d agentId = [] then (AgentInactive, d)
      else (case update_appointment d i
                   (\<lambda>a. a\<lparr>assigned_agent_id := Some (nat agentId),
                            assigned_at := Some now,
                            status := Assigned\<rparr>) of
              Inl e \<Rightarrow> (InternalFailure, d)
            | Inr d' \<Rightarrow> (Success, d')))"

subsection \<open>\<^verbatim>\<open>PUT /api/appointments/:id/schedule\<close>\<close>

text \<open>
  \<open>errors_empty\<close> is the result of the validators on the date and the time, which
  arrive parsed. The pre-check is
  \<^verbatim>\<open>SELECT id FROM appointments WHERE property_id = ? AND scheduled_date = ?
   AND scheduled_time = ? AND id != ? AND status != 'cancelled'\<close>;
  the \<^verbatim>\<open>catch\<close> block answers 409 for \<^verbatim>\<open>ER_DUP_ENTRY\<close> and 500 otherwise.
\<close>

definition select_owned :: "db \<Rightarrow> nat \<Rightarrow> nat \<Rightarrow> appointment list" where
  "select_owned d i uid =
     filter (\<lambda>a. appt_id a = i \<and> assigned_agent_id a = Some uid) (appointments d)"

definition conflicts ::
  "db \<Rightarrow> nat \<Rightarrow> sql_date \<Rightarrow> sql_time \<Rightarrow> nat \<Rightarrow> appointment list" where
  "conflicts d pid scheduledDate scheduledTime i =
     filter (\<lambda>a. property_id a = pid
                  \<and> scheduled_date a = Some scheduledDate
                  \<and> scheduled_time a = Some scheduledTime
                  \<and> appt_id a \<noteq> i
                  \<and> status a \<noteq> Cancelled) (appointments d)"

definition scheduleAppointment ::
  "db \<Rightarrow> actor \<Rightarrow> nat \<Rightarrow> bool \<Rightarrow> sql_date \<Rightarrow> sql_time \<Rightarrow> string option \<Rightarrow> response \<times> db" where
  "scheduleAppointment d u i errors_empty scheduledDate scheduledTime agentNotes =
     (if \<not> isAgentOrAdmin u then (Forbidden, d)
      else if \<not> errors_empty then (ValidationFailed, d)
      else (case filter (joined d) (select_owned d i (actor_id u)) of
              [] \<Rightarrow> (NotOwned, d)
            | appointment # _ \<Rightarrow>
                if conflicts d (property_id appointment) scheduledDate scheduledTime i \<noteq> []
                then (SlotConflict, d)
                else (case update_appointment d i
                             (\<lambda>a. a\<lparr>scheduled_date := Some scheduledDate,
                                      scheduled_time := Some scheduledTime,
                                      agent_notes := or_null agentNotes,
                                      status := Scheduled\<rparr>) of
                        Inl ER_DUP_ENTRY \<Rightarrow> (SlotConflict, d)
                      | Inl e \<Rightarrow> (InternalFailure, d)
                      | Inr d' \<Rightarrow> (Success, d'))))"

subsection \<open>\<^verbatim>\<open>PUT /api/appointments/:id/complete\<close>\<close>

text \<open>
  The validator is \<^verbatim>\<open>body('outcome').isIn(['interested', 'offer_made', 'not_interested',
  'no_show', 'needs_followup'])\<close>. The UPDATE writes the string to the ENUM column
  \<^verbatim>\<open>outcome\<close>, which has four labels: in strict SQL mode (the default of MySQL 5.7 and
  later) a string that is no label fails the statement, and the \<^verbatim>\<open>catch\<close> block answers
  500. \<^verbatim>\<open>agent_notes = COALESCE(?, agent_notes)\<close> keeps the old notes when none are sent.
\<close>

definition valid_outcomes :: "string list" where
  "valid_outcomes =
     [''interested'', ''offer_made'', ''not_interested'', ''no_show'', ''needs_followup'']"

definition outcome_enum :: "string \<Rightarrow> outcome option" where
  "outcome_enum s =
     (if s = ''interested'' then Some Interested
      else if s = ''offer_made'' then Some OfferMade
      else if s = ''not_interested'' then Some NotInterested
      else if s = ''no_show'' then Some NoShow
      else None)"

definition completeAppointment ::
  "db \<Rightarrow> actor \<Rightarrow> nat \<Rightarrow> string \<Rightarrow> string option \<Rightarrow> string option \<Rightarrow> timestamp
     \<Rightarrow> response \<times> db" where
  "completeAppointment d u i outcome_s outcomeNotes agentNotes now =
     (if \<not> isAgentOrAdmin u then (Forbidden, d)
      else if outcome_s \<notin> set valid_outcomes then (ValidationFailed, d)
      else if select_owned d i (actor_id u) = [] then (NotOwned, d)
      else (case outcome_enum outcome_s of
              None \<Rightarrow> (InternalFailure, d)
            | Some oc \<Rightarrow>
                (case update_appointment d i
                        (\<lambda>a. a\<lparr>status := Completed,
                                 outcome := Some oc,
                                 outcome_notes := or_null outcomeNotes,
                                 agent_notes :=
                                   (case agentNotes of None \<Rightarrow> agent_notes a
                                    | Some n \<Rightarrow> Some n),
                                 completed_at := Some now\<rparr>) of
                   Inl e \<Rightarrow> (InternalFailure, d)
                 | Inr d' \<Rightarrow> (Success, d'))))"

subsection \<open>\<^verbatim>\<open>PUT /api/appointments/:id/cancel\<close>\<close>

text \<open>
  The SELECT is \<^verbatim>\<open>WHERE id = ?\<close>, with \<^verbatim>\<open>AND assigned_agent_id = ?\<close> added when the caller's
  role is \<^verbatim>\<open>agent\<close>. The UPDATE sets \<^verbatim>\<open>status = 'cancelled'\<close> and
  \<^verbatim>\<open>agent_notes = CONCAT(COALESCE(agent_notes, ''), '\nCancelled: ', ?)\<close> with the reason or
  \<^verbatim>\<open>No reason provided\<close>. The handler does not read the status of the appointment.
\<close>

definition select_cancellable :: "db \<Rightarrow> actor \<Rightarrow> nat \<Rightarrow> appointment list" where
  "select_cancellable d u i =
     filter (\<lambda>a. appt_id a = i
                  \<and> (if actor_role u = Agent then assigned_agent_id a = Some (actor_id u)
                      else True)) (appointments d)"

definition cancel_note :: "string option \<Rightarrow> string option \<Rightarrow> string" where
  "cancel_note notes reason =
     coalesce notes [] @ CHR 0x0A # ''Cancelled: '' @ or_default reason ''No reason provided''"

definition cancelAppointment :: "db \<Rightarrow> actor \<Rightarrow> nat \<Rightarrow> string option \<Rightarrow> response \<times> db" where
  "cancelAppointment d u i reason =
     (if \<not> isAgentOrAdmin u then (Forbidden, d)
      else if select_cancellable d u i = [] then (AppointmentNotFound, d)
      else (case update_appointment d i
                   (\<lambda>a. a\<lparr>status := Cancelled,
                            agent_notes := Some (cancel_note (agent_notes a) reason)\<rparr>) of
              Inl e \<Rightarrow> (InternalFailure, d)
            | Inr d' \<Rightarrow> (Success, d')))"

section \<open>Runs of the routes\<close>

text \<open>
  A call of one of the routes that write to the store, with its arguments; \<open>perform\<close> is
  the call on a store, and \<open>run\<close> performs a list of calls one after the other, whatever
  each of them answers.
\<close>

datatype call =
    Create recaptcha_env create_request string timestamp
  | Assign actor nat int timestamp
  | Schedule actor nat bool sql_date sql_time "string option"
  | Complete actor nat string "string option" "string option" timestamp
  | Cancel actor nat "string option"

fun perform :: "db \<Rightarrow> call \<Rightarrow> response \<times> db" where
  "perform d (Create env req ipAddress now) = createAppointment env d req ipAddress now"
| "perform d (Assign u i agentId now) = assignAgent d u i agentId now"
| "perform d (Schedule u i errors_empty scheduledDate scheduledTime agentNotes) =
     scheduleAppointment d u i errors_empty scheduledDate scheduledTime agentNotes"
| "perform d (Complete u i outcome_s outcomeNotes agentNotes now) =
     completeAppointment d u i outcome_s outcomeNotes agentNotes now"
| "perform d (Cancel u i reason) = cancelAppointment d u i reason"

fun run :: "db \<Rightarrow> call list \<Rightarrow> db" where
  "run d [] = d"
| "run d (c # cs) = run (snd (perform d c)) cs"

text \<open>
  The invariant of the appointments table that the runs keep: ids are distinct and below
  the AUTO_INCREMENT counter, no row is cancelled, and the rows of each property carry,
  in stored order, the priority numbers 1, 2, ..., n.
\<close>

definition queue_inv :: "db \<Rightarrow> bool" where
  "queue_inv d \<longleftrightarrow>
     distinct (map appt_id (appointments d))
     \<and> (\<forall>a\<in>set (appointments d). appt_id a < auto_increment d \<and> status a \<noteq> Cancelled)
     \<and> (\<forall>pid. map priority_number (filter (\<lambda>a. property_id a = pid) (appointments d))
               = map Some [1..int (length (filter (\<lambda>a. property_id a = pid)
                                            (appointments d)))])"

section \<open>Example states\<close>

text \<open>
  A small store used to run the routes on: property 7 (available) and property 8 (sold),
  the admin 1, the active agent 5, the inactive agent 6. Day 20148 is 2025-03-01 and
  second 36000 is 10:00.
\<close>

definition sample_row ::
  "nat \<Rightarrow> nat \<Rightarrow> string \<Rightarrow> int \<Rightarrow> status \<Rightarrow> nat option \<Rightarrow> timestamp \<Rightarrow> appointment" where
  "sample_row i pid email prio st agent t =
     \<lparr>appt_id = i, property_id = pid, customer_name = ''Jane Doe'', customer_email = email,
      customer_phone = ''555-0100'', customer_intent = ''buy'', customer_message = None,
      priority_number = Some prio, assigned_agent_id = agent, assigned_at = None,
      scheduled_date = None, scheduled_time = None, status = st, outcome = None,
      outcome_notes = None, agent_notes = None, admin_notes = None, completed_at = None,
      recaptcha_score = None, ip_address = None, created_at = t\<rparr>"

definition sample_db :: "appointment list \<Rightarrow> db" where
  "sample_db rows =
     \<lparr>appointments = rows,
      properties = [\<lparr>prop_id = 7, prop_title = ''Loft'', prop_status = Available\<rparr>,
                    \<lparr>prop_id = 8, prop_title = ''Villa'', prop_status = Sold\<rparr>],
      users = [\<lparr>user_id = 1, user_email = ''admin@company.com'', first_name = ''System'',
                 user_role = Admin, is_active = True\<rparr>,
               \<lparr>user_id = 5, user_email = ''agent1@company.com'', first_name = ''Maria'',
                 user_role = Agent, is_active = True\<rparr>,
               \<lparr>user_id = 6, user_email = ''agent2@company.com'', first_name = ''Juan'',
                 user_role = Agent, is_active = False\<rparr>],
      auto_increment = length rows + 1\<rparr>"

definition recaptcha_off :: recaptcha_env where
  "recaptcha_off = \<lparr>secret_key_configured = False, siteverify = (\<lambda>token. None)\<rparr>"


definition viewing_request :: "string \<Rightarrow> string option \<Rightarrow> create_request" where
  "viewing_request email token =
     \<lparr>errors_isEmpty = True, propertyId = 7, customerName = ''Jane Doe'',
      customerEmail = email, customerPhone = ''555-0100'', customerIntent = ''buy'',
      customerMessage = None, recaptchaToken = token\<rparr>"

definition admin1 :: actor where
  "admin1 = \<lparr>actor_id = 1, actor_role = Admin\<rparr>"

definition agent5 :: actor where
  "agent5 = \<lparr>actor_id = 5, actor_role = Agent\<rparr>"



section \<open>Priority assignment on creation\<close>

lemma sql_max_Max: "sql_max xs = (if xs = [] then None else Some (Max (set xs)))"
proof (cases xs)
  case Nil
  then show ?thesis by simp
next
  case (Cons x ys)
  then show ?thesis using Max.set_eq_fold [of x ys] by simp
qed

lemma set_non_null: "set (non_null xs) = {v. Some v \<in> set xs}"
  by (induction xs rule: non_null.induct) auto

lemma max_priority_eq:
  "max_priority rows pid =
     (let S = {p. \<exists>a\<in>set rows. property_id a = pid \<and> priority_number a = Some p}
      in if S = {} then 1 else Max S + 1)"
proof -
  let ?xs = "non_null (map priority_number (filter (\<lambda>a. property_id a = pid) rows))"
  have S: "set ?xs = {p. \<exists>a\<in>set rows. property_id a = pid \<and> priority_number a = Some p}"
    by (auto simp: set_non_null image_iff)
  have "?xs = [] \<longleftrightarrow> set ?xs = {}" by simp
  then show ?thesis
    unfolding max_priority_def sql_max_Max coalesce_def Let_def S [symmetric]
    by (simp del: set_empty)
qed

lemma recaptcha_gate_Inl:
  "recaptcha_gate env tok = Inl r \<Longrightarrow> r = RecaptchaFailed \<or> r = SuspiciousActivity"
  unfolding recaptcha_gate_def
  by (auto split: option.splits if_splits simp: Let_def)

lemma createAppointment_Created:
  assumes "createAppointment env d req ip now = (Created i, d')"
  shows "\<exists>sc. recaptcha_gate env (recaptchaToken req) = Inr sc
           \<and> (d', i) = insert_appointment d (new_appointment req sc ip now)"
  using assms unfolding createAppointment_def
  by (auto split: if_splits sum.splits list.splits prod.splits simp: Let_def
        dest: recaptcha_gate_Inl)

text \<open>
  Claim C7. When \<^verbatim>\<open>POST /api/appointments\<close> creates an appointment for property P, the
  stored row is appended to the table with the returned id, and its priority number is
  the maximum priority number over all existing appointments of P (cancelled ones
  included) plus 1, and 1 when P has no appointment with a priority number.
\<close>

theorem createAppointment_priority:
  assumes "createAppointment env d req ip now = (Created i, d')"
  shows "\<exists>row. appointments d' = appointments d @ [row]
           \<and> appt_id row = i
           \<and> property_id row = propertyId req
           \<and> priority_number row =
               Some (let S = {p. \<exists>a\<in>set (appointments d).
                                   property_id a = propertyId req \<and> priority_number a = Some p}
                     in if S = {} then 1 else Max S + 1)
           \<and> ((\<forall>a\<in>set (appointments d). property_id a \<noteq> propertyId req)
                \<longrightarrow> priority_number row = Some 1)"
proof -
  from createAppointment_Created [OF assms] obtain sc where
    ins: "(d', i) = insert_appointment d (new_appointment req sc ip now)" by blast
  let ?row = "before_appointment_insert (appointments d)
                ((new_appointment req sc ip now)\<lparr>appt_id := auto_increment d\<rparr>)"
  have "appointments d' = appointments d @ [?row]" and "i = auto_increment d"
    using ins by (simp_all add: insert_appointment_def Let_def)
  moreover have "appt_id ?row = auto_increment d" "property_id ?row = propertyId req"
    by (simp_all add: before_appointment_insert_def new_appointment_def)
  moreover have pr: "priority_number ?row =
               Some (let S = {p. \<exists>a\<in>set (appointments d).
                                   property_id a = propertyId req \<and> priority_number a = Some p}
                     in if S = {} then 1 else Max S + 1)"
    by (simp add: before_appointment_insert_def new_appointment_def max_priority_eq)
  moreover have "priority_number ?row = Some 1"
    if "\<forall>a\<in>set (appointments d). property_id a \<noteq> propertyId req"
  proof -
    from that have "{p. \<exists>a\<in>set (appointments d).
                      property_id a = propertyId req \<and> priority_number a = Some p} = {}"
      by blast
    with pr show ?thesis by simp
  qed
  ultimately show ?thesis by blast
qed

theorem createAppointment_priority_witness:
  "fst (createAppointment recaptcha_off
          (sample_db [sample_row 1 7 ''a@x.org'' 1 Pending None 100,
                      sample_row 2 7 ''b@x.org'' 2 Cancelled None 200])
          (viewing_request ''c@x.org'' None) ''10.0.0.1'' 90000) = Created 3
   \<and> (\<exists>row. appointments (snd (createAppointment recaptcha_off
          (sample_db [sample_row 1 7 ''a@x.org'' 1 Pending None 100,
                      sample_row 2 7 ''b@x.org'' 2 Cancelled None 200])
          (viewing_request ''c@x.org'' None) ''10.0.0.1'' 90000))
        = [sample_row 1 7 ''a@x.org'' 1 Pending None 100,
           sample_row 2 7 ''b@x.org'' 2 Cancelled None 200] @ [row]
      \<and> appt_id row = 3 \<and> property_id row = 7 \<and> priority_number row = Some 3)
   \<and> fst (createAppointment recaptcha_off (sample_db [])
          (viewing_request ''c@x.org'' None) ''10.0.0.1'' 90000) = Created 1
   \<and> (\<exists>row. appointments (snd (createAppointment recaptcha_off (sample_db [])
          (viewing_request ''c@x.org'' None) ''10.0.0.1'' 90000)) = [] @ [row]
      \<and> appt_id row = 1 \<and> property_id row = 7 \<and> priority_number row = Some 1)"
proof -
  let ?d = "sample_db [sample_row 1 7 ''a@x.org'' 1 Pending None 100,
                       sample_row 2 7 ''b@x.org'' 2 Cancelled None 200]"
  let ?r = "createAppointment recaptcha_off ?d (viewing_request ''c@x.org'' None) ''10.0.0.1'' 90000"
  let ?e = "createAppointment recaptcha_off (sample_db [])
              (viewing_request ''c@x.org'' None) ''10.0.0.1'' 90000"
  have f: "fst ?r = Created 3" by code_simp
  then have h: "?r = (Created 3, snd ?r)" by (simp add: prod_eq_iff)
  have S: "{p. \<exists>a\<in>set (appointments ?d). property_id a = 7 \<and> priority_number a = Some p}
             = {1, 2}"
    by (auto simp: sample_db_def sample_row_def)
  have pid: "propertyId (viewing_request ''c@x.org'' None) = 7"
    by (simp add: viewing_request_def)
  have two: "\<exists>row. appointments (snd ?r) = appointments ?d @ [row]
      \<and> appt_id row = 3 \<and> property_id row = 7 \<and> priority_number row = Some 3"
    using createAppointment_priority [OF h] unfolding pid S by auto
  have g: "fst ?e = Created 1" by code_simp
  then have k: "?e = (Created 1, snd ?e)" by (simp add: prod_eq_iff)
  have none: "\<forall>a\<in>set (appointments (sample_db [])).
                property_id a \<noteq> propertyId (viewing_request ''c@x.org'' None)"
    by (simp add: sample_db_def)
  have zero: "\<exists>row. appointments (snd ?e) = appointments (sample_db []) @ [row]
      \<and> appt_id row = 1 \<and> property_id row = 7 \<and> priority_number row = Some 1"
    using createAppointment_priority [OF k] none unfolding pid by blast
  have rows: "appointments ?d = [sample_row 1 7 ''a@x.org'' 1 Pending None 100,
                                 sample_row 2 7 ''b@x.org'' 2 Cancelled None 200]"
    "appointments (sample_db []) = []"
    by (simp_all add: sample_db_def)
  show ?thesis
    using f g two zero unfolding rows by blast
qed

section \<open>Facts about UPDATE\<close>

lemma isAgentOrAdmin_always: "isAgentOrAdmin u"
  unfolding isAgentOrAdmin_def by (cases "actor_role u") simp_all

lemma find_map_same:
  assumes "\<And>a. P (g a) = P a"
  shows "find P (map g xs) = map_option g (find P xs)"
  by (induction xs) (simp_all add: assms)

lemma find_after_update:
  assumes "find (\<lambda>a. appt_id a = i) rows = Some old" and "appt_id new = i"
  shows "find (\<lambda>a. appt_id a = i) (map (\<lambda>a. if appt_id a = i then new else a) rows)
           = Some new"
proof -
  have "appt_id old = i"
    using assms(1) by (auto simp: find_Some_iff)
  with assms show ?thesis by (subst find_map_same) auto
qed

text \<open>
  An update that keeps the slot of the row and does not move it to \<^verbatim>\<open>cancelled\<close> succeeds
  and writes the row; an update that moves a row to \<^verbatim>\<open>cancelled\<close> is refused.
\<close>

lemma update_appointment_same_key:
  assumes "find (\<lambda>a. appt_id a = i) (appointments d) = Some old"
    and "slot_key (f old) = slot_key old" and "appt_id (f old) = i"
    and "\<not> (status old \<noteq> Cancelled \<and> status (f old) = Cancelled)"
  shows "\<exists>d'. update_appointment d i f = Inr d'
           \<and> find (\<lambda>a. appt_id a = i) (appointments d') = Some (f old)"
  using assms find_after_update [OF assms(1,3)]
  by (simp add: update_appointment_def Let_def after_appointment_cancel_def)

lemma update_appointment_refused:
  assumes "find (\<lambda>a. appt_id a = i) (appointments d) = Some old"
    and "slot_key (f old) = slot_key old"
    and "status old \<noteq> Cancelled" and "status (f old) = Cancelled"
  shows "update_appointment d i f = Inl ER_CANT_UPDATE_USED_TABLE_IN_SF_OR_TRG"
  using assms by (simp add: update_appointment_def Let_def after_appointment_cancel_def)

lemma find_id_exists:
  assumes "a \<in> set rows" and "appt_id a = i"
  shows "\<exists>old. find (\<lambda>a. appt_id a = i) rows = Some old"
  using assms by (cases "find (\<lambda>a. appt_id a = i) rows") (auto simp: find_None_iff)

section \<open>Cancellation\<close>

text \<open>
  A cancel call on a row that is not cancelled yet sets the status to \<^verbatim>\<open>cancelled\<close>, the
  trigger's branch is entered and its UPDATE is refused: the route answers 500
  \<^verbatim>\<open>Failed to cancel appointment\<close> and the store is unchanged.
\<close>

lemma cancelAppointment_trigger_refused:
  assumes "select_cancellable d u i \<noteq> []"
    and "find (\<lambda>a. appt_id a = i) (appointments d) = Some old"
    and "status old \<noteq> Cancelled"
  shows "cancelAppointment d u i reason = (InternalFailure, d)"
proof -
  let ?f = "\<lambda>a. a\<lparr>status := Cancelled,
                     agent_notes := Some (cancel_note (agent_notes a) reason)\<rparr>"
  have "update_appointment d i ?f = Inl ER_CANT_UPDATE_USED_TABLE_IN_SF_OR_TRG"
    using assms(2,3)
    by (intro update_appointment_refused [where old = old]) (simp_all add: slot_key_def)
  with assms(1) show ?thesis
    by (simp add: cancelAppointment_def isAgentOrAdmin_always)
qed






section \<open>Assignment\<close>

text \<open>
  Claim C4, as the code has it. For an admin caller and a valid \<^verbatim>\<open>agentId\<close>,
  \<^verbatim>\<open>PUT /api/appointments/:id/assign\<close> answers 404 when the appointment does not exist, 400
  \<^verbatim>\<open>Agent not found or inactive\<close> when it exists and no active user with the agent role
  has that id, and otherwise succeeds, whatever the status of the appointment: it sets
  the assigned agent, the assignment time and the status \<^verbatim>\<open>assigned\<close>, and nothing else.
\<close>

theorem assignAgent_any_status:
  assumes "isAdmin u" and "1 \<le> agentId"
  shows "(\<not> (\<exists>a\<in>set (appointments d). appt_id a = i \<and> joined d a)
            \<longrightarrow> assignAgent d u i agentId now = (AppointmentNotFound, d))
       \<and> ((\<exists>a\<in>set (appointments d). appt_id a = i \<and> joined d a)
            \<and> \<not> (\<exists>v\<in>set (users d). int (user_id v) = agentId
                      \<and> user_role v = Agent \<and> is_active v)
            \<longrightarrow> assignAgent d u i agentId now = (AgentInactive, d))
       \<and> ((\<exists>a\<in>set (appointments d). appt_id a = i \<and> joined d a)
            \<and> (\<exists>v\<in>set (users d). int (user_id v) = agentId
                      \<and> user_role v = Agent \<and> is_active v)
            \<longrightarrow> (\<exists>d' old. assignAgent d u i agentId now = (Success, d')
                   \<and> find (\<lambda>a. appt_id a = i) (appointments d) = Some old
                   \<and> find (\<lambda>a. appt_id a = i) (appointments d')
                       = Some (old\<lparr>assigned_agent_id := Some (nat agentId),
                                    assigned_at := Some now,
                                    status := Assigned\<rparr>)))"
proof -
  let ?A = "\<exists>a\<in>set (appointments d). appt_id a = i \<and> joined d a"
  let ?U = "\<exists>v\<in>set (users d). int (user_id v) = agentId \<and> user_role v = Agent \<and> is_active v"
  let ?f = "\<lambda>a. a\<lparr>assigned_agent_id := Some (nat agentId), assigned_at := Some now,
                     status := Assigned\<rparr>"
  have selA: "select_joined d i = [] \<longleftrightarrow> \<not> ?A"
    unfolding select_joined_def filter_empty_conv by blast
  have selU: "select_agents d agentId = [] \<longleftrightarrow> \<not> ?U"
    unfolding select_agents_def filter_empty_conv by blast
  have pre: "\<not> \<not> isAdmin u" "\<not> agentId < 1"
    using assms by simp_all
  have c1: "assignAgent d u i agentId now = (AppointmentNotFound, d)" if "\<not> ?A"
  proof -
    from selA that have "select_joined d i = []" by blast
    then show ?thesis using pre by (simp add: assignAgent_def)
  qed
  have c2: "assignAgent d u i agentId now = (AgentInactive, d)" if "?A" "\<not> ?U"
  proof -
    from selA selU that have "select_joined d i \<noteq> []" "select_agents d agentId = []"
      by blast+
    then show ?thesis using pre by (simp add: assignAgent_def)
  qed
  have c3: "\<exists>d' old. assignAgent d u i agentId now = (Success, d')
              \<and> find (\<lambda>a. appt_id a = i) (appointments d) = Some old
              \<and> find (\<lambda>a. appt_id a = i) (appointments d') = Some (?f old)" if "?A" "?U"
  proof -
    from \<open>?A\<close> obtain old where old: "find (\<lambda>a. appt_id a = i) (appointments d) = Some old"
      using find_id_exists by blast
    then have "appt_id old = i" by (auto simp: find_Some_iff)
    then have "appt_id (?f old) = i" "slot_key (?f old) = slot_key old"
      "\<not> (status old \<noteq> Cancelled \<and> status (?f old) = Cancelled)"
      by (simp_all add: slot_key_def)
    from update_appointment_same_key [where f = ?f, OF old this(2) this(1) this(3)]
    obtain d' where
      "update_appointment d i ?f = Inr d'"
      "find (\<lambda>a. appt_id a = i) (appointments d') = Some (?f old)" by blast
    moreover from selA selU that
    have "select_joined d i \<noteq> []" "select_agents d agentId \<noteq> []" by blast+
    ultimately show ?thesis
      using old pre by (simp add: assignAgent_def)
  qed
  show ?thesis using c1 c2 c3 by blast
qed

theorem assignAgent_any_status_witness:
  "isAdmin admin1 \<and> (1::int) \<le> 5
   \<and> (\<exists>a\<in>set (appointments (sample_db [sample_row 1 7 ''a@x.org'' 1 Pending None 100])).
         appt_id a = 1 \<and> joined (sample_db [sample_row 1 7 ''a@x.org'' 1 Pending None 100]) a)
   \<and> (\<exists>v\<in>set (users (sample_db [sample_row 1 7 ''a@x.org'' 1 Pending None 100])).
         int (user_id v) = 5 \<and> user_role v = Agent \<and> is_active v)
   \<and> (\<exists>d' old.
         assignAgent (sample_db [sample_row 1 7 ''a@x.org'' 1 Pending None 100]) admin1 1 5 500
           = (Success, d')
         \<and> find (\<lambda>a. appt_id a = 1)
              (appointments (sample_db [sample_row 1 7 ''a@x.org'' 1 Pending None 100])) = Some old
         \<and> find (\<lambda>a. appt_id a = 1) (appointments d')
             = Some (old\<lparr>assigned_agent_id := Some (nat 5), assigned_at := Some 500,
                          status := Assigned\<rparr>))
   \<and> \<not> (\<exists>v\<in>set (users (sample_db [sample_row 1 7 ''a@x.org'' 1 Pending None 100])).
         int (user_id v) = 6 \<and> user_role v = Agent \<and> is_active v)
   \<and> assignAgent (sample_db [sample_row 1 7 ''a@x.org'' 1 Pending None 100]) admin1 1 6 500
       = (AgentInactive, sample_db [sample_row 1 7 ''a@x.org'' 1 Pending None 100])
   \<and> \<not> (\<exists>a\<in>set (appointments (sample_db [sample_row 1 7 ''a@x.org'' 1 Pending None 100])).
         appt_id a = 2 \<and> joined (sample_db [sample_row 1 7 ''a@x.org'' 1 Pending None 100]) a)
   \<and> assignAgent (sample_db [sample_row 1 7 ''a@x.org'' 1 Pending None 100]) admin1 2 5 500
       = (AppointmentNotFound, sample_db [sample_row 1 7 ''a@x.org'' 1 Pending None 100])"
proof -
  let ?d = "sample_db [sample_row 1 7 ''a@x.org'' 1 Pending None 100]"
  have adm: "isAdmin admin1" by (simp add: isAdmin_def admin1_def)
  have a1: "\<exists>a\<in>set (appointments ?d). appt_id a = 1 \<and> joined ?d a"
    by (simp add: sample_db_def sample_row_def joined_def)
  have a2: "\<not> (\<exists>a\<in>set (appointments ?d). appt_id a = 2 \<and> joined ?d a)"
    by (simp add: sample_db_def sample_row_def joined_def)
  have u5: "\<exists>v\<in>set (users ?d). int (user_id v) = 5 \<and> user_role v = Agent \<and> is_active v"
    by (simp add: sample_db_def)
  have u6: "\<not> (\<exists>v\<in>set (users ?d). int (user_id v) = 6 \<and> user_role v = Agent \<and> is_active v)"
    by (simp add: sample_db_def)
  have five: "(1::int) \<le> 5" and six: "(1::int) \<le> 6" by simp_all
  show ?thesis
    using adm a1 a2 u5 u6 five
      assignAgent_any_status [OF adm five, of ?d 1 500]
      assignAgent_any_status [OF adm six, of ?d 1 500]
      assignAgent_any_status [OF adm five, of ?d 2 500]
    by blast
qed

text \<open>
  A completed appointment of agent 5 is assigned again: the route answers 200 and the
  status goes back to \<^verbatim>\<open>assigned\<close>.
\<close>

theorem assign_completed_counterexample:
  "fst (assignAgent (sample_db [sample_row 1 7 ''a@x.org'' 1 Completed (Some 5) 100])
          admin1 1 5 500) = Success
   \<and> map status (appointments (snd (assignAgent
        (sample_db [sample_row 1 7 ''a@x.org'' 1 Completed (Some 5) 100]) admin1 1 5 500)))
      = [Assigned]
   \<and> map assigned_at (appointments (snd (assignAgent
        (sample_db [sample_row 1 7 ''a@x.org'' 1 Completed (Some 5) 100]) admin1 1 5 500)))
      = [Some 500]"
  by code_simp

section \<open>Completion\<close>

lemma outcome_enum_labels:
  assumes "outcome_s \<in> set [''interested'', ''offer_made'', ''not_interested'', ''no_show'']"
  shows "outcome_s \<in> set valid_outcomes" and "\<exists>oc. outcome_enum outcome_s = Some oc"
  using assms by (auto simp: valid_outcomes_def outcome_enum_def)

text \<open>
  Claim C5, as the code has it. For an outcome that is a label of the \<^verbatim>\<open>outcome\<close> column,
  \<^verbatim>\<open>PUT /api/appointments/:id/complete\<close> succeeds whenever the appointment is assigned to
  the caller, whatever its status: it sets the status \<^verbatim>\<open>completed\<close>, the outcome, the
  outcome notes and the completion time, and replaces the agent notes when notes are
  sent. Otherwise the answer is 404 \<^verbatim>\<open>Appointment not found or not assigned to you\<close> and the
  store is unchanged.
\<close>

theorem completeAppointment_any_status:
  assumes "outcome_s \<in> set [''interested'', ''offer_made'', ''not_interested'', ''no_show'']"
  shows "((\<exists>a\<in>set (appointments d). appt_id a = i \<and> assigned_agent_id a = Some (actor_id u))
            \<longrightarrow> (\<exists>d' old.
                   completeAppointment d u i outcome_s outcomeNotes agentNotes now = (Success, d')
                   \<and> find (\<lambda>a. appt_id a = i) (appointments d) = Some old
                   \<and> find (\<lambda>a. appt_id a = i) (appointments d')
                       = Some (old\<lparr>status := Completed,
                                    outcome := outcome_enum outcome_s,
                                    outcome_notes := or_null outcomeNotes,
                                    agent_notes := (case agentNotes of
                                                      None \<Rightarrow> agent_notes old
                                                    | Some n \<Rightarrow> Some n),
                                    completed_at := Some now\<rparr>)))
       \<and> (\<not> (\<exists>a\<in>set (appointments d). appt_id a = i \<and> assigned_agent_id a = Some (actor_id u))
            \<longrightarrow> completeAppointment d u i outcome_s outcomeNotes agentNotes now = (NotOwned, d))"
proof -
  let ?A = "\<exists>a\<in>set (appointments d). appt_id a = i \<and> assigned_agent_id a = Some (actor_id u)"
  from outcome_enum_labels [OF assms] obtain oc where
    valid: "outcome_s \<in> set valid_outcomes" and oc: "outcome_enum outcome_s = Some oc"
    by blast
  let ?f = "\<lambda>a. a\<lparr>status := Completed, outcome := Some oc,
                     outcome_notes := or_null outcomeNotes,
                     agent_notes := (case agentNotes of None \<Rightarrow> agent_notes a | Some n \<Rightarrow> Some n),
                     completed_at := Some now\<rparr>"
  have sel: "select_owned d i (actor_id u) = [] \<longleftrightarrow> \<not> ?A"
    unfolding select_owned_def filter_empty_conv by blast
  have c1: "completeAppointment d u i outcome_s outcomeNotes agentNotes now = (NotOwned, d)"
    if "\<not> ?A"
  proof -
    from sel that have "select_owned d i (actor_id u) = []" by blast
    then show ?thesis
      using valid by (simp add: completeAppointment_def isAgentOrAdmin_always)
  qed
  have c2: "\<exists>d' old.
              completeAppointment d u i outcome_s outcomeNotes agentNotes now = (Success, d')
              \<and> find (\<lambda>a. appt_id a = i) (appointments d) = Some old
              \<and> find (\<lambda>a. appt_id a = i) (appointments d') = Some (?f old)" if "?A"
  proof -
    from \<open>?A\<close> obtain old where old: "find (\<lambda>a. appt_id a = i) (appointments d) = Some old"
      using find_id_exists by blast
    then have "appt_id old = i" by (auto simp: find_Some_iff)
    then have "appt_id (?f old) = i" "slot_key (?f old) = slot_key old"
      "\<not> (status old \<noteq> Cancelled \<and> status (?f old) = Cancelled)"
      by (simp_all add: slot_key_def)
    from update_appointment_same_key [where f = ?f, OF old this(2) this(1) this(3)]
    obtain d' where
      "update_appointment d i ?f = Inr d'"
      "find (\<lambda>a. appt_id a = i) (appointments d') = Some (?f old)" by blast
    moreover from sel that have "select_owned d i (actor_id u) \<noteq> []" by blast
    ultimately show ?thesis
      using old valid oc by (simp add: completeAppointment_def isAgentOrAdmin_always)
  qed
  show ?thesis using c1 c2 unfolding oc by blast
qed

theorem completeAppointment_any_status_witness:
  "''offer_made'' \<in> set [''interested'', ''offer_made'', ''not_interested'', ''no_show'']
   \<and> (\<exists>a\<in>set (appointments (sample_db [sample_row 1 7 ''a@x.org'' 1 Scheduled (Some 5) 100])).
         appt_id a = 1 \<and> assigned_agent_id a = Some (actor_id agent5))
   \<and> (\<exists>d' old.
         completeAppointment (sample_db [sample_row 1 7 ''a@x.org'' 1 Scheduled (Some 5) 100])
           agent5 1 ''offer_made'' (Some ''keen'') None 900 = (Success, d')
         \<and> find (\<lambda>a. appt_id a = 1)
              (appointments (sample_db [sample_row 1 7 ''a@x.org'' 1 Scheduled (Some 5) 100]))
             = Some old
         \<and> find (\<lambda>a. appt_id a = 1) (appointments d')
             = Some (old\<lparr>status := Completed,
                          outcome := Some OfferMade,
                          outcome_notes := Some ''keen'',
                          agent_notes := agent_notes old,
                          completed_at := Some 900\<rparr>))
   \<and> \<not> (\<exists>a\<in>set (appointments (sample_db [sample_row 1 7 ''a@x.org'' 1 Scheduled (Some 5) 100])).
         appt_id a = 1 \<and> assigned_agent_id a = Some (actor_id admin1))
   \<and> completeAppointment (sample_db [sample_row 1 7 ''a@x.org'' 1 Scheduled (Some 5) 100])
        admin1 1 ''offer_made'' (Some ''keen'') None 900
       = (NotOwned, sample_db [sample_row 1 7 ''a@x.org'' 1 Scheduled (Some 5) 100])"
proof -
  let ?d = "sample_db [sample_row 1 7 ''a@x.org'' 1 Scheduled (Some 5) 100]"
  have l: "''offer_made'' \<in> set [''interested'', ''offer_made'', ''not_interested'', ''no_show'']"
    by simp
  have e: "outcome_enum ''offer_made'' = Some OfferMade"
    by (simp add: outcome_enum_def)
  have a: "\<exists>a\<in>set (appointments ?d). appt_id a = 1 \<and> assigned_agent_id a = Some (actor_id agent5)"
    by (simp add: sample_db_def sample_row_def agent5_def)
  have b: "\<not> (\<exists>a\<in>set (appointments ?d).
               appt_id a = 1 \<and> assigned_agent_id a = Some (actor_id admin1))"
    by (simp add: sample_db_def sample_row_def admin1_def)
  show ?thesis
    using l a b
      completeAppointment_any_status [OF l, of ?d 1 agent5 "Some ''keen''" None 900]
      completeAppointment_any_status [OF l, of ?d 1 admin1 "Some ''keen''" None 900]
    unfolding e by simp
qed

text \<open>
  An appointment that is assigned but not scheduled is completed by its agent; a pending
  appointment has no agent, and completing it answers 404, the only rejection the
  handler has besides validation.
\<close>

theorem complete_unscheduled_counterexample:
  "fst (completeAppointment (sample_db [sample_row 1 7 ''a@x.org'' 1 Assigned (Some 5) 100])
          agent5 1 ''interested'' None None 900) = Success
   \<and> map status (appointments (snd (completeAppointment
        (sample_db [sample_row 1 7 ''a@x.org'' 1 Assigned (Some 5) 100])
        agent5 1 ''interested'' None None 900)))
      = [Completed]
   \<and> map outcome (appointments (snd (completeAppointment
        (sample_db [sample_row 1 7 ''a@x.org'' 1 Assigned (Some 5) 100])
        agent5 1 ''interested'' None None 900)))
      = [Some Interested]
   \<and> completeAppointment (sample_db [sample_row 1 7 ''a@x.org'' 1 Pending None 100])
        agent5 1 ''interested'' None None 900
      = (NotOwned, sample_db [sample_row 1 7 ''a@x.org'' 1 Pending None 100])"
  by code_simp

text \<open>
  Claim C9 at the outcome \<^verbatim>\<open>needs_followup\<close>. The validator of the route accepts it, the
  ENUM column has no such label: the agent of a scheduled appointment gets 500 and the
  row keeps its NULL outcome and its status.
\<close>

theorem complete_needs_followup_fails:
  "''needs_followup'' \<in> set valid_outcomes
   \<and> outcome_enum ''needs_followup'' = None
   \<and> completeAppointment (sample_db [sample_row 1 7 ''a@x.org'' 1 Scheduled (Some 5) 100])
        agent5 1 ''needs_followup'' None None 900
      = (InternalFailure, sample_db [sample_row 1 7 ''a@x.org'' 1 Scheduled (Some 5) 100])
   \<and> map (\<lambda>a. (status a, outcome a))
        (appointments (sample_db [sample_row 1 7 ''a@x.org'' 1 Scheduled (Some 5) 100]))
      = [(Scheduled, None)]"
  by code_simp

section \<open>Duplicate-submission guard\<close>






section \<open>Anti-abuse gate\<close>









section \<open>Admin list ordering\<close>

lemma admin_order_le:
  "admin_order a \<le> admin_order b \<longleftrightarrow>
     status_rank (status a) < status_rank (status b)
     \<or> (status_rank (status a) = status_rank (status b)
        \<and> (priority_number a < priority_number b
           \<or> (priority_number a = priority_number b \<and> created_at b \<le> created_at a)))"
  unfolding admin_order_def less_eq_prod_def by auto

lemma status_rank_order:
  "status_rank Pending < status_rank Assigned"
  "status_rank Assigned < status_rank Scheduled"
  "status_rank Scheduled < status_rank Completed"
  "status_rank Completed = status_rank Cancelled"
  by simp_all

text \<open>
  Claim C8. Every page \<^verbatim>\<open>GET /api/appointments\<close> returns, for every store and status
  filter, is sorted: of two rows, the earlier one has the smaller status rank (pending
  before assigned before scheduled before completed and cancelled), or the same rank and
  the smaller priority number (a NULL one first), or the same rank and priority number
  and a creation time that is not earlier. Every returned row is a stored row.
\<close>

theorem listAppointments_sorted:
  assumes "listAppointments d u status_q page limit = Inr rows"
  shows "sorted_wrt (\<lambda>a b.
            status_rank (status a) < status_rank (status b)
            \<or> (status_rank (status a) = status_rank (status b)
               \<and> (priority_number a < priority_number b
                  \<or> (priority_number a = priority_number b
                     \<and> created_at b \<le> created_at a)))) rows
       \<and> status_rank Pending < status_rank Assigned
       \<and> status_rank Assigned < status_rank Scheduled
       \<and> status_rank Scheduled < status_rank Completed
       \<and> status_rank Scheduled < status_rank Cancelled
       \<and> set rows \<subseteq> set (appointments d)"
proof -
  let ?all = "sort_key admin_order
                (filter (\<lambda>a. joined d a \<and> where_status status_q a) (appointments d))"
  from assms have rows: "rows = take (nat limit) (drop (nat ((page - 1) * limit)) ?all)"
    by (simp add: listAppointments_def Let_def split: if_splits)
  have "sorted (map admin_order ?all)"
    by (rule sorted_sort_key)
  then have "sorted_wrt (\<lambda>a b. admin_order a \<le> admin_order b) ?all"
    by (simp add: sorted_map)
  then have "sorted_wrt (\<lambda>a b. admin_order a \<le> admin_order b) rows"
    unfolding rows by (intro sorted_wrt_take sorted_wrt_drop)
  then have s: "sorted_wrt (\<lambda>a b.
            status_rank (status a) < status_rank (status b)
            \<or> (status_rank (status a) = status_rank (status b)
               \<and> (priority_number a < priority_number b
                  \<or> (priority_number a = priority_number b
                     \<and> created_at b \<le> created_at a)))) rows"
    by (simp only: admin_order_le)
  have "set rows \<subseteq> set ?all"
    unfolding rows by (meson set_take_subset set_drop_subset subset_trans)
  then have sub: "set rows \<subseteq> set (appointments d)"
    by auto
  show ?thesis using s sub by simp
qed

theorem listAppointments_sorted_witness:
  "listAppointments
     (sample_db [sample_row 1 7 ''a@x.org'' 1 Pending None 100,
                 sample_row 2 7 ''b@x.org'' 2 Pending None 200,
                 sample_row 3 8 ''c@x.org'' 1 Pending None 300,
                 sample_row 4 8 ''d@x.org'' 2 Completed (Some 5) 400,
                 sample_row 5 7 ''e@x.org'' 3 Assigned (Some 5) 500])
     admin1 None 1 20
   = Inr [sample_row 3 8 ''c@x.org'' 1 Pending None 300,
          sample_row 1 7 ''a@x.org'' 1 Pending None 100,
          sample_row 2 7 ''b@x.org'' 2 Pending None 200,
          sample_row 5 7 ''e@x.org'' 3 Assigned (Some 5) 500,
          sample_row 4 8 ''d@x.org'' 2 Completed (Some 5) 400]
   \<and> sorted_wrt (\<lambda>a b.
            status_rank (status a) < status_rank (status b)
            \<or> (status_rank (status a) = status_rank (status b)
               \<and> (priority_number a < priority_number b
                  \<or> (priority_number a = priority_number b
                     \<and> created_at b \<le> created_at a))))
         [sample_row 3 8 ''c@x.org'' 1 Pending None 300,
          sample_row 1 7 ''a@x.org'' 1 Pending None 100,
          sample_row 2 7 ''b@x.org'' 2 Pending None 200,
          sample_row 5 7 ''e@x.org'' 3 Assigned (Some 5) 500,
          sample_row 4 8 ''d@x.org'' 2 Completed (Some 5) 400]"
proof -
  have h: "listAppointments
     (sample_db [sample_row 1 7 ''a@x.org'' 1 Pending None 100,
                 sample_row 2 7 ''b@x.org'' 2 Pending None 200,
                 sample_row 3 8 ''c@x.org'' 1 Pending None 300,
                 sample_row 4 8 ''d@x.org'' 2 Completed (Some 5) 400,
                 sample_row 5 7 ''e@x.org'' 3 Assigned (Some 5) 500])
     admin1 None 1 20
   = Inr [sample_row 3 8 ''c@x.org'' 1 Pending None 300,
          sample_row 1 7 ''a@x.org'' 1 Pending None 100,
          sample_row 2 7 ''b@x.org'' 2 Pending None 200,
          sample_row 5 7 ''e@x.org'' 3 Assigned (Some 5) 500,
          sample_row 4 8 ''d@x.org'' 2 Completed (Some 5) 400]"
    by code_simp
  show ?thesis
    using h listAppointments_sorted [OF h] by blast
qed

section \<open>Scheduling conflicts\<close>

lemma update_appointment_error:
  assumes "update_appointment d i f = Inl e" and "\<And>a. status (f a) \<noteq> Cancelled"
  shows "e = ER_DUP_ENTRY"
  using assms
  by (auto simp: update_appointment_def Let_def after_appointment_cancel_def
        split: option.splits if_splits)

text \<open>
  The store's violation of the unique key is answered as the same 409; the schedule
  route never answers 500.
\<close>

lemma scheduleAppointment_never_internal:
  "fst (scheduleAppointment d u i ok scheduledDate scheduledTime agentNotes) \<noteq> InternalFailure"
proof -
  have "e = ER_DUP_ENTRY"
    if "update_appointment d i
          (\<lambda>a. a\<lparr>scheduled_date := Some scheduledDate, scheduled_time := Some scheduledTime,
                   agent_notes := or_null agentNotes, status := Scheduled\<rparr>) = Inl e" for e
    using that by (rule update_appointment_error) simp
  then show ?thesis
    unfolding scheduleAppointment_def
    by (auto split: list.splits sum.splits db_error.splits)
qed

lemma filter_head_of_find:
  assumes "find Q xs = Some a" and "P a" and "\<And>x. P x \<Longrightarrow> Q x"
  shows "\<exists>as. filter P xs = a # as"
  using assms by (induction xs) (auto split: if_splits)

text \<open>
  What the schedule route does when the caller's appointment does not hold the proposed
  slot yet: it answers 409 exactly when some other appointment of the property, of any
  status, has the same date and time, and succeeds otherwise.
\<close>

lemma scheduleAppointment_conflict_iff:
  assumes a: "find (\<lambda>x. appt_id x = i) (appointments d) = Some a"
    and own: "assigned_agent_id a = Some (actor_id u)" and j: "joined d a"
    and fresh: "(scheduled_date a, scheduled_time a) \<noteq> (Some scheduledDate, Some scheduledTime)"
  shows "scheduleAppointment d u i True scheduledDate scheduledTime agentNotes =
           (if \<exists>b\<in>set (appointments d). appt_id b \<noteq> i \<and> property_id b = property_id a
                  \<and> scheduled_date b = Some scheduledDate
                  \<and> scheduled_time b = Some scheduledTime
            then (SlotConflict, d)
            else (Success,
                  d\<lparr>appointments :=
                      map (\<lambda>x. if appt_id x = i
                                then a\<lparr>scheduled_date := Some scheduledDate,
                                       scheduled_time := Some scheduledTime,
                                       agent_notes := or_null agentNotes,
                                       status := Scheduled\<rparr>
                                else x) (appointments d)\<rparr>))"
proof -
  let ?new = "a\<lparr>scheduled_date := Some scheduledDate, scheduled_time := Some scheduledTime,
                 agent_notes := or_null agentNotes, status := Scheduled\<rparr>"
  let ?B = "\<exists>b\<in>set (appointments d). appt_id b \<noteq> i \<and> property_id b = property_id a
              \<and> scheduled_date b = Some scheduledDate \<and> scheduled_time b = Some scheduledTime"
  have ai: "appt_id a = i" using a by (auto simp: find_Some_iff)
  have "\<exists>as. filter (\<lambda>x. joined d x \<and> appt_id x = i \<and> assigned_agent_id x = Some (actor_id u))
               (appointments d) = a # as"
    using a own j ai by (intro filter_head_of_find [where Q = "\<lambda>x. appt_id x = i"]) auto
  then obtain as where sel: "filter (joined d) (select_owned d i (actor_id u)) = a # as"
    by (auto simp: select_owned_def conj_commute)
  have key: "slot_key ?new \<noteq> slot_key a"
    using fresh by (auto simp: slot_key_def)
  have dup: "dup_entry (appointments d) ?new \<longleftrightarrow> ?B"
    by (auto simp: dup_entry_def same_slot_def list_ex_iff ai)
  have pre: "conflicts d (property_id a) scheduledDate scheduledTime i \<noteq> [] \<Longrightarrow> ?B"
    by (auto simp: conflicts_def filter_empty_conv)
  have upd: "update_appointment d i
               (\<lambda>x. x\<lparr>scheduled_date := Some scheduledDate, scheduled_time := Some scheduledTime,
                        agent_notes := or_null agentNotes, status := Scheduled\<rparr>) =
             (if ?B then Inl ER_DUP_ENTRY
              else Inr (d\<lparr>appointments :=
                          map (\<lambda>x. if appt_id x = i then ?new else x) (appointments d)\<rparr>))"
  proof (cases ?B)
    case True
    with dup have "dup_entry (appointments d) ?new" by blast
    with a key True show ?thesis
      by (simp add: update_appointment_def Let_def)
  next
    case False
    with dup have "\<not> dup_entry (appointments d) ?new" by blast
    with a False show ?thesis
      by (simp add: update_appointment_def Let_def after_appointment_cancel_def)
  qed
  show ?thesis
  proof (cases ?B)
    case True
    then show ?thesis
      unfolding scheduleAppointment_def sel
      by (simp add: isAgentOrAdmin_always upd)
  next
    case False
    with pre have "conflicts d (property_id a) scheduledDate scheduledTime i = []" by blast
    with False show ?thesis
      unfolding scheduleAppointment_def sel
      by (simp add: isAgentOrAdmin_always upd)
  qed
qed



section \<open>Priority numbers after a run\<close>

lemma queue_inv_empty: "appointments d = [] \<Longrightarrow> queue_inv d"
  by (simp add: queue_inv_def)

lemma non_null_map_Some: "non_null (map Some xs) = xs"
  by (induction xs) simp_all

lemma sql_max_upto: "sql_max [1..int n] = (if n = 0 then None else Some (int n))"
proof (cases "n = 0")
  case True
  then show ?thesis by simp
next
  case False
  then have "Max {1..int n} = int n"
    by (intro Max_eqI) auto
  with False show ?thesis
    by (simp add: sql_max_Max)
qed

lemma max_priority_inv:
  assumes "queue_inv d"
  shows "max_priority (appointments d) pid =
           int (length (filter (\<lambda>a. property_id a = pid) (appointments d))) + 1"
proof -
  from assms have "map priority_number (filter (\<lambda>a. property_id a = pid) (appointments d))
      = map Some [1..int (length (filter (\<lambda>a. property_id a = pid) (appointments d)))]"
    by (simp add: queue_inv_def)
  then show ?thesis
    by (simp add: max_priority_def non_null_map_Some sql_max_upto coalesce_def)
qed

lemma upto_snoc: "[1..int n] @ [int n + 1] = [1..int (Suc n)]"
proof -
  have "[1..int n + 1] = [1..int n + 1 - 1] @ [int n + 1]"
    by (rule upto_rec2) simp
  then show ?thesis by (simp add: add.commute)
qed

lemma insert_appointment_inv:
  assumes inv: "queue_inv d" and st: "status new \<noteq> Cancelled"
  shows "queue_inv (fst (insert_appointment d new))"
proof -
  let ?rows = "appointments d"
  let ?row = "before_appointment_insert ?rows (new\<lparr>appt_id := auto_increment d\<rparr>)"
  have d': "fst (insert_appointment d new)
              = d\<lparr>appointments := ?rows @ [?row], auto_increment := auto_increment d + 1\<rparr>"
    by (simp add: insert_appointment_def Let_def)
  have row: "appt_id ?row = auto_increment d" "property_id ?row = property_id new"
    "status ?row = status new"
    "priority_number ?row = Some (max_priority ?rows (property_id new))"
    by (simp_all add: before_appointment_insert_def)
  from inv have ids: "distinct (map appt_id ?rows)"
    and lt: "\<forall>a\<in>set ?rows. appt_id a < auto_increment d \<and> status a \<noteq> Cancelled"
    and pr: "\<And>pid. map priority_number (filter (\<lambda>a. property_id a = pid) ?rows)
               = map Some [1..int (length (filter (\<lambda>a. property_id a = pid) ?rows))]"
    by (simp_all add: queue_inv_def)
  have "auto_increment d \<notin> appt_id ` set ?rows"
    using lt by auto
  with ids row(1) have 1: "distinct (map appt_id (?rows @ [?row]))"
    by simp
  have 2: "\<forall>a\<in>set (?rows @ [?row]). appt_id a < auto_increment d + 1 \<and> status a \<noteq> Cancelled"
    using lt row(1,3) st by auto
  have 3: "map priority_number (filter (\<lambda>a. property_id a = pid) (?rows @ [?row]))
             = map Some [1..int (length (filter (\<lambda>a. property_id a = pid) (?rows @ [?row])))]"
    for pid
  proof (cases "property_id new = pid")
    case False
    with row(2) show ?thesis by (simp add: pr)
  next
    case True
    let ?n = "length (filter (\<lambda>a. property_id a = pid) ?rows)"
    from True row(2,4) max_priority_inv [OF inv, of pid]
    have "map priority_number (filter (\<lambda>a. property_id a = pid) (?rows @ [?row]))
            = map Some [1..int ?n] @ [Some (int ?n + 1)]"
      by (simp add: pr)
    also have "\<dots> = map Some ([1..int ?n] @ [int ?n + 1])" by simp
    also have "\<dots> = map Some [1..int (Suc ?n)]" by (simp only: upto_snoc)
    finally show ?thesis using True row(2) by simp
  qed
  show ?thesis
    unfolding d' queue_inv_def using 1 2 3 by simp
qed

lemma update_appointment_inv:
  assumes inv: "queue_inv d"
    and f: "\<And>a. appt_id (f a) = appt_id a \<and> property_id (f a) = property_id a
                 \<and> priority_number (f a) = priority_number a \<and> status (f a) \<noteq> Cancelled"
    and upd: "update_appointment d i f = Inr d'"
  shows "queue_inv d'"
proof (cases "find (\<lambda>a. appt_id a = i) (appointments d)")
  case None
  with upd have "d' = d" by (simp add: update_appointment_def)
  with inv show ?thesis by simp
next
  case (Some old)
  let ?rows = "appointments d"
  define g where "g = (\<lambda>a. if appt_id a = i then f a else a)"
  from Some have old: "old \<in> set ?rows" "appt_id old = i"
    by (auto simp: find_Some_iff)
  from inv have ids: "distinct (map appt_id ?rows)"
    and lt: "\<forall>a\<in>set ?rows. appt_id a < auto_increment d \<and> status a \<noteq> Cancelled"
    and pr: "\<And>pid. map priority_number (filter (\<lambda>a. property_id a = pid) ?rows)
               = map Some [1..int (length (filter (\<lambda>a. property_id a = pid) ?rows))]"
    by (simp_all add: queue_inv_def)
  from ids have inj: "inj_on appt_id (set ?rows)"
    by (simp add: distinct_map)
  have same: "map (\<lambda>a. if appt_id a = i then f old else a) ?rows = map g ?rows"
  proof (rule map_cong [OF refl])
    fix a assume "a \<in> set ?rows"
    with inj old show "(if appt_id a = i then f old else a) = g a"
      by (auto simp: g_def dest: inj_onD)
  qed
  from upd Some
  have "d' = d\<lparr>appointments := map (\<lambda>a. if appt_id a = i then f old else a) ?rows\<rparr>"
    by (auto simp: update_appointment_def Let_def after_appointment_cancel_def
          split: if_splits sum.splits)
  then have d': "d' = d\<lparr>appointments := map g ?rows\<rparr>"
    by (simp only: same)
  have g: "appt_id (g a) = appt_id a" "property_id (g a) = property_id a"
    "priority_number (g a) = priority_number a" for a
    using f by (simp_all add: g_def)
  have gs: "status (g a) \<noteq> Cancelled" if "status a \<noteq> Cancelled" for a
    using f that by (simp add: g_def)
  have 1: "distinct (map appt_id (map g ?rows))"
    using ids by (simp add: comp_def g)
  have 2: "\<forall>a\<in>set (map g ?rows). appt_id a < auto_increment d \<and> status a \<noteq> Cancelled"
    using lt g(1) gs by auto
  have fl: "filter (\<lambda>a. property_id a = pid) (map g ?rows)
              = map g (filter (\<lambda>a. property_id a = pid) ?rows)" for pid
    by (simp add: filter_map comp_def g)
  have 3: "map priority_number (filter (\<lambda>a. property_id a = pid) (map g ?rows))
             = map Some [1..int (length (filter (\<lambda>a. property_id a = pid) (map g ?rows)))]"
    for pid
    unfolding fl using pr [of pid] by (simp add: comp_def g)
  show ?thesis
    unfolding d' queue_inv_def using 1 2 3 by simp
qed


lemma createAppointment_store:
  "snd (createAppointment env d req ip now) = d
   \<or> (\<exists>sc. snd (createAppointment env d req ip now)
               = fst (insert_appointment d (new_appointment req sc ip now)))"
  unfolding createAppointment_def
  by (auto simp: Let_def split: sum.splits list.splits prod.splits) (metis fst_conv)

lemma cancelAppointment_inv_unchanged:
  assumes "queue_inv d"
  shows "cancelAppointment d u i reason = (AppointmentNotFound, d)
         \<or> cancelAppointment d u i reason = (InternalFailure, d)"
proof (cases "select_cancellable d u i = []")
  case True
  then show ?thesis by (simp add: cancelAppointment_def isAgentOrAdmin_always)
next
  case False
  then obtain a where "a \<in> set (appointments d)" "appt_id a = i"
    by (auto simp: select_cancellable_def filter_empty_conv)
  then obtain old where old: "find (\<lambda>a. appt_id a = i) (appointments d) = Some old"
    using find_id_exists by blast
  then have "old \<in> set (appointments d)" by (auto simp: find_Some_iff)
  with assms have "status old \<noteq> Cancelled" by (simp add: queue_inv_def)
  from cancelAppointment_trigger_refused [OF False old this] show ?thesis by simp
qed

lemma perform_inv:
  assumes inv: "queue_inv d"
  shows "queue_inv (snd (perform d c))"
proof (cases c)
  case (Create env req ip now)
  have st: "status (new_appointment req sc ip now) \<noteq> Cancelled" for sc
    by (simp add: new_appointment_def)
  from createAppointment_store [of env d req ip now] show ?thesis
  proof
    assume "snd (createAppointment env d req ip now) = d"
    with inv Create show ?thesis by simp
  next
    assume "\<exists>sc. snd (createAppointment env d req ip now)
                  = fst (insert_appointment d (new_appointment req sc ip now))"
    then obtain sc where "snd (createAppointment env d req ip now)
                  = fst (insert_appointment d (new_appointment req sc ip now))" ..
    with insert_appointment_inv [OF inv st [of sc]] Create show ?thesis by simp
  qed
next
  case (Assign u i agentId now)
  show ?thesis
    unfolding Assign perform.simps assignAgent_def
    by (auto split: sum.splits intro: inv update_appointment_inv [OF inv, rotated])
next
  case (Schedule u i ok scheduledDate scheduledTime agentNotes)
  show ?thesis
    unfolding Schedule perform.simps scheduleAppointment_def
    by (auto split: sum.splits list.splits db_error.splits
          intro: inv update_appointment_inv [OF inv, rotated])
next
  case (Complete u i outcome_s outcomeNotes agentNotes now)
  show ?thesis
    unfolding Complete perform.simps completeAppointment_def
    by (auto split: sum.splits option.splits
          intro: inv update_appointment_inv [OF inv, rotated])
next
  case (Cancel u i reason)
  from cancelAppointment_inv_unchanged [OF inv, of u i reason] inv show ?thesis
    unfolding Cancel perform.simps by auto
qed

lemma run_inv: "queue_inv d \<Longrightarrow> queue_inv (run d calls)"
  by (induction calls arbitrary: d) (simp_all add: perform_inv)


text \<open>
  No renumbering takes place in a run: on a store the routes have reached from an empty
  table no appointment is cancelled, and a cancel call answers 404 or, the trigger's
  UPDATE being refused, 500, and changes nothing.
\<close>

lemma cancel_after_run_changes_nothing:
  assumes "appointments d0 = []"
  shows "cancelAppointment (run d0 calls) u i reason = (AppointmentNotFound, run d0 calls)
         \<or> cancelAppointment (run d0 calls) u i reason = (InternalFailure, run d0 calls)"
  by (intro cancelAppointment_inv_unchanged run_inv queue_inv_empty assms)



end
